theory Spec2Isabelle
  imports Main
begin

section \<open>ThreadSafeQueue.h: a lock-token-gated FIFO queue\<close>

text \<open>
  The header defines one class template, \<^verbatim>\<open>ThreadSafeQueue<T>\<close>, which inherits
  privately from \<^verbatim>\<open>std::deque<T>\<close> (under the alias \<^verbatim>\<open>SuperQueue<T>\<close>) and owns a
  \<^verbatim>\<open>std::shared_mutex\<close>. Every member function that reads or changes the elements takes
  a lock object by reference and begins with \<^verbatim>\<open>ASSERT(is_valid_lock(lock))\<close>.

  The embedding is sequential. A member function is a function from the receiver's
  state to an outcome; the outcome carries the returned value together with the
  receiver's state after the call. The blocking behaviour of \<^verbatim>\<open>std::shared_mutex\<close> is
  not part of the header and is not modelled: a lock object is the value that
  acquisition hands back once it returns.
\<close>

subsection \<open>Outcomes\<close>

text \<open>
  A call that runs either returns, or stops in a failed assertion (\<^verbatim>\<open>assert\<close> calls
  \<^verbatim>\<open>abort\<close>), or violates a precondition of \<^verbatim>\<open>std::deque\<close>, which the C++ standard
  leaves undefined.
\<close>

datatype 'r outcome = Returns 'r | Assertion_failed | Undefined_behaviour

definition seq :: "'r outcome \<Rightarrow> ('r \<Rightarrow> 's outcome) \<Rightarrow> 's outcome" where
  "seq m k = (case m of
     Returns r \<Rightarrow> k r
   | Assertion_failed \<Rightarrow> Assertion_failed
   | Undefined_behaviour \<Rightarrow> Undefined_behaviour)"

text \<open>
  The header has \<^verbatim>\<open>#ifndef ASSERT\<close> / \<^verbatim>\<open>#define ASSERT assert\<close>. The standard \<^verbatim>\<open>assert(c)\<close>
  aborts when \<open>c\<close> is false, unless \<^verbatim>\<open>NDEBUG\<close> is defined where \<^verbatim>\<open><cassert>\<close> is
  included: then it expands to \<^verbatim>\<open>((void)0)\<close> and \<open>c\<close> is not evaluated. The header
  neither defines nor undefines \<^verbatim>\<open>NDEBUG\<close>; that is the choice of whoever compiles it, so
  it is the parameter \<open>ndebug\<close> of \<open>ASSERT\<close> and of every function that asserts. An
  includer that supplies its own \<^verbatim>\<open>ASSERT\<close> replaces the macro: one that checks behaves
  as \<open>ndebug = False\<close>, one that expands to nothing as \<open>ndebug = True\<close>.
\<close>

definition ASSERT :: "bool \<Rightarrow> bool \<Rightarrow> unit outcome" where
  "ASSERT ndebug c =
     (if ndebug then Returns () else if c then Returns () else Assertion_failed)"

subsection \<open>The mutex and the two lock types\<close>

text \<open>
  \<^verbatim>\<open>is_valid_lock\<close> compares \<^verbatim>\<open>lock.mutex()\<close> with \<^verbatim>\<open>&m_mutex\<close>, so a mutex is
  represented by its address. \<^verbatim>\<open>ReadLock\<close> is \<^verbatim>\<open>std::shared_lock<RWMutex>\<close> and
  \<^verbatim>\<open>WriteLock\<close> is \<^verbatim>\<open>std::unique_lock<RWMutex>\<close>: each holds a pointer to its mutex,
  which is null for a default-constructed, moved-from or released lock, and a flag
  saying whether it currently owns the mutex.
\<close>

type_synonym RWMutex = nat

datatype ReadLock = ReadLock (rl_mutex: "RWMutex option") (rl_owns_lock: bool)

datatype WriteLock = WriteLock (wl_mutex: "RWMutex option") (wl_owns_lock: bool)

subsection \<open>The part of \<^verbatim>\<open>std::deque\<close> that the header uses\<close>

text \<open>
  The element sequence is a list, front first. \<^verbatim>\<open>front\<close>, \<^verbatim>\<open>back\<close> and \<^verbatim>\<open>pop_front\<close>
  require a non-empty container; calling them on an empty one is undefined behaviour.
  \<^verbatim>\<open>push_back\<close> can only fail by exhausting memory, which is outside this model, and
  \<^verbatim>\<open>size\<close> never exceeds \<^verbatim>\<open>max_size\<close>, so the \<^verbatim>\<open>size_t\<close> it returns is the length.
  An iterator is a position in the sequence; \<^verbatim>\<open>cbegin\<close> is position 0 and \<^verbatim>\<open>cend\<close> is
  the length. Dereferencing or incrementing the past-the-end iterator is undefined.
\<close>

type_synonym 'a SuperQueue = "'a list"

definition deque_back :: "'a SuperQueue \<Rightarrow> 'a outcome" where
  "deque_back xs = (if xs = [] then Undefined_behaviour else Returns (last xs))"

definition deque_front :: "'a SuperQueue \<Rightarrow> 'a outcome" where
  "deque_front xs = (case xs of [] \<Rightarrow> Undefined_behaviour | x # _ \<Rightarrow> Returns x)"

definition deque_empty :: "'a SuperQueue \<Rightarrow> bool" where
  "deque_empty xs = (xs = [])"

definition deque_size :: "'a SuperQueue \<Rightarrow> nat" where
  "deque_size xs = length xs"

definition deque_push_back :: "'a \<Rightarrow> 'a SuperQueue \<Rightarrow> 'a SuperQueue" where
  "deque_push_back v xs = xs @ [v]"

definition deque_pop_front :: "'a SuperQueue \<Rightarrow> 'a SuperQueue outcome" where
  "deque_pop_front xs = (case xs of [] \<Rightarrow> Undefined_behaviour | _ # rest \<Rightarrow> Returns rest)"

type_synonym Iterator = nat

definition deque_begin :: "'a SuperQueue \<Rightarrow> Iterator" where
  "deque_begin xs = 0"

definition deque_end :: "'a SuperQueue \<Rightarrow> Iterator" where
  "deque_end xs = length xs"

subsection \<open>The class\<close>

record 'a ThreadSafeQueue =
  SuperQueue :: "'a SuperQueue"
  m_mutex :: RWMutex

text \<open>
  The class declares no constructor: a new queue has an empty base container and a
  mutex of its own, at the address \<open>a\<close>.
\<close>

definition ThreadSafeQueue :: "RWMutex \<Rightarrow> 'a ThreadSafeQueue" where
  "ThreadSafeQueue a = \<lparr>SuperQueue = [], m_mutex = a\<rparr>"

definition is_valid_lock_ReadLock :: "'a ThreadSafeQueue \<Rightarrow> ReadLock \<Rightarrow> bool" where
  "is_valid_lock_ReadLock this lock = (rl_mutex lock = Some (m_mutex this))"

definition is_valid_lock_WriteLock :: "'a ThreadSafeQueue \<Rightarrow> WriteLock \<Rightarrow> bool" where
  "is_valid_lock_WriteLock this lock = (wl_mutex lock = Some (m_mutex this))"

paragraph \<open>read\<close>

text \<open>
  \<^verbatim>\<open>back\<close> and \<^verbatim>\<open>front\<close> return a reference to an element; the model returns the
  element. None of the eight functions below assigns to anything, so the receiver
  comes back as it went in.
\<close>

definition back_ReadLock ::
  "bool \<Rightarrow> ReadLock \<Rightarrow> 'a ThreadSafeQueue \<Rightarrow> ('a \<times> 'a ThreadSafeQueue) outcome" where
  "back_ReadLock ndebug lock this =
     seq (ASSERT ndebug (is_valid_lock_ReadLock this lock)) (\<lambda>_.
     seq (deque_back (SuperQueue this)) (\<lambda>r.
     Returns (r, this)))"

definition front_ReadLock ::
  "bool \<Rightarrow> ReadLock \<Rightarrow> 'a ThreadSafeQueue \<Rightarrow> ('a \<times> 'a ThreadSafeQueue) outcome" where
  "front_ReadLock ndebug lock this =
     seq (ASSERT ndebug (is_valid_lock_ReadLock this lock)) (\<lambda>_.
     seq (deque_front (SuperQueue this)) (\<lambda>r.
     Returns (r, this)))"

definition back_WriteLock ::
  "bool \<Rightarrow> WriteLock \<Rightarrow> 'a ThreadSafeQueue \<Rightarrow> ('a \<times> 'a ThreadSafeQueue) outcome" where
  "back_WriteLock ndebug lock this =
     seq (ASSERT ndebug (is_valid_lock_WriteLock this lock)) (\<lambda>_.
     seq (deque_back (SuperQueue this)) (\<lambda>r.
     Returns (r, this)))"

definition front_WriteLock ::
  "bool \<Rightarrow> WriteLock \<Rightarrow> 'a ThreadSafeQueue \<Rightarrow> ('a \<times> 'a ThreadSafeQueue) outcome" where
  "front_WriteLock ndebug lock this =
     seq (ASSERT ndebug (is_valid_lock_WriteLock this lock)) (\<lambda>_.
     seq (deque_front (SuperQueue this)) (\<lambda>r.
     Returns (r, this)))"

definition empty_ReadLock ::
  "bool \<Rightarrow> ReadLock \<Rightarrow> 'a ThreadSafeQueue \<Rightarrow> (bool \<times> 'a ThreadSafeQueue) outcome" where
  "empty_ReadLock ndebug lock this =
     seq (ASSERT ndebug (is_valid_lock_ReadLock this lock)) (\<lambda>_.
     Returns (deque_empty (SuperQueue this), this))"

definition empty_WriteLock ::
  "bool \<Rightarrow> WriteLock \<Rightarrow> 'a ThreadSafeQueue \<Rightarrow> (bool \<times> 'a ThreadSafeQueue) outcome" where
  "empty_WriteLock ndebug lock this =
     seq (ASSERT ndebug (is_valid_lock_WriteLock this lock)) (\<lambda>_.
     Returns (deque_empty (SuperQueue this), this))"

definition size_ReadLock ::
  "bool \<Rightarrow> ReadLock \<Rightarrow> 'a ThreadSafeQueue \<Rightarrow> (nat \<times> 'a ThreadSafeQueue) outcome" where
  "size_ReadLock ndebug lock this =
     seq (ASSERT ndebug (is_valid_lock_ReadLock this lock)) (\<lambda>_.
     Returns (deque_size (SuperQueue this), this))"

definition size_WriteLock ::
  "bool \<Rightarrow> WriteLock \<Rightarrow> 'a ThreadSafeQueue \<Rightarrow> (nat \<times> 'a ThreadSafeQueue) outcome" where
  "size_WriteLock ndebug lock this =
     seq (ASSERT ndebug (is_valid_lock_WriteLock this lock)) (\<lambda>_.
     Returns (deque_size (SuperQueue this), this))"

paragraph \<open>write\<close>

text \<open>
  The two \<^verbatim>\<open>push\<close> overloads (\<^verbatim>\<open>const T&\<close> and \<^verbatim>\<open>T&&\<close>) differ only in whether the
  value is copied or moved into \<^verbatim>\<open>push_back\<close>; both are the function \<open>push\<close>.
\<close>

definition push ::
  "bool \<Rightarrow> 'a \<Rightarrow> WriteLock \<Rightarrow> 'a ThreadSafeQueue \<Rightarrow> (unit \<times> 'a ThreadSafeQueue) outcome" where
  "push ndebug v lock this =
     seq (ASSERT ndebug (is_valid_lock_WriteLock this lock)) (\<lambda>_.
     Returns ((), this\<lparr>SuperQueue := deque_push_back v (SuperQueue this)\<rparr>))"

definition pop ::
  "bool \<Rightarrow> WriteLock \<Rightarrow> 'a ThreadSafeQueue \<Rightarrow> ('a \<times> 'a ThreadSafeQueue) outcome" where
  "pop ndebug lock this =
     seq (ASSERT ndebug (is_valid_lock_WriteLock this lock)) (\<lambda>_.
     seq (deque_front (SuperQueue this)) (\<lambda>front.
     seq (deque_pop_front (SuperQueue this)) (\<lambda>rest.
     Returns (front, this\<lparr>SuperQueue := rest\<rparr>))))"

paragraph \<open>locks\<close>

definition acquire_read_lock :: "'a ThreadSafeQueue \<Rightarrow> ReadLock" where
  "acquire_read_lock this = ReadLock (Some (m_mutex this)) True"

definition acquire_write_lock :: "'a ThreadSafeQueue \<Rightarrow> WriteLock" where
  "acquire_write_lock this = WriteLock (Some (m_mutex this)) True"

paragraph \<open>views\<close>

text \<open>
  Both view classes hold a reference to the queue and a reference to the lock. The
  referenced queue is represented by its state at the time the view is used.
\<close>

record 'a IterableView =
  m_queue :: "'a ThreadSafeQueue"
  m_lock :: ReadLock

record 'a IterableWriteView =
  m_queue_w :: "'a ThreadSafeQueue"
  m_lock_w :: WriteLock

definition IterableView ::
  "bool \<Rightarrow> 'a ThreadSafeQueue \<Rightarrow> ReadLock \<Rightarrow> 'a IterableView outcome" where
  "IterableView ndebug queue lock =
     seq (ASSERT ndebug (is_valid_lock_ReadLock queue lock)) (\<lambda>_.
     Returns \<lparr>m_queue = queue, m_lock = lock\<rparr>)"

definition IterableView_begin :: "'a IterableView \<Rightarrow> Iterator" where
  "IterableView_begin view = deque_begin (SuperQueue (m_queue view))"

definition IterableView_end :: "'a IterableView \<Rightarrow> Iterator" where
  "IterableView_end view = deque_end (SuperQueue (m_queue view))"

definition IterableWriteView ::
  "bool \<Rightarrow> 'a ThreadSafeQueue \<Rightarrow> WriteLock \<Rightarrow> 'a IterableWriteView outcome" where
  "IterableWriteView ndebug queue lock =
     seq (ASSERT ndebug (is_valid_lock_WriteLock queue lock)) (\<lambda>_.
     Returns \<lparr>m_queue_w = queue, m_lock_w = lock\<rparr>)"

text \<open>
  \<^verbatim>\<open>IterableWriteView\<close> has a const and a non-const \<^verbatim>\<open>begin\<close>/\<^verbatim>\<open>end\<close> pair; the const
  pair returns \<^verbatim>\<open>cbegin\<close>/\<^verbatim>\<open>cend\<close>, the other \<^verbatim>\<open>begin\<close>/\<^verbatim>\<open>end\<close>. They denote the same
  positions and differ in whether the element may be assigned through the iterator.
\<close>

definition IterableWriteView_cbegin :: "'a IterableWriteView \<Rightarrow> Iterator" where
  "IterableWriteView_cbegin view = deque_begin (SuperQueue (m_queue_w view))"

definition IterableWriteView_cend :: "'a IterableWriteView \<Rightarrow> Iterator" where
  "IterableWriteView_cend view = deque_end (SuperQueue (m_queue_w view))"

definition IterableWriteView_begin :: "'a IterableWriteView \<Rightarrow> Iterator" where
  "IterableWriteView_begin view = deque_begin (SuperQueue (m_queue_w view))"

definition IterableWriteView_end :: "'a IterableWriteView \<Rightarrow> Iterator" where
  "IterableWriteView_end view = deque_end (SuperQueue (m_queue_w view))"

text \<open>
  A call expression need not compile. It is well-formed and denotes what the selected
  function computes, or no declared overload takes the argument, or an overload is
  selected and the program is ill-formed all the same.
\<close>

datatype 'r call = Well_formed 'r | No_matching_overload | Ill_formed

text \<open>
  The constructor \<^verbatim>\<open>IterableView(ThreadSafeQueue& queue, ReadLock& lock)\<close> takes the queue
  by reference to non-const. A const queue does not bind to that parameter, and the
  class has no other constructor to take it.
\<close>

datatype constness = Const | Non_const

definition construct_IterableView ::
  "bool \<Rightarrow> constness \<Rightarrow> 'a ThreadSafeQueue \<Rightarrow> ReadLock \<Rightarrow> 'a IterableView outcome call" where
  "construct_IterableView ndebug c queue lock = (case c of
     Non_const \<Rightarrow> Well_formed (IterableView ndebug queue lock)
   | Const \<Rightarrow> Ill_formed)"

text \<open>
  \<^verbatim>\<open>acquire_iterable_view\<close> is declared \<^verbatim>\<open>const\<close>, so inside it \<^verbatim>\<open>*this\<close> is a const
  queue, and its body is \<^verbatim>\<open>ASSERT(is_valid_lock(lock)); return IterableView(*this, lock);\<close>.
  The body is instantiated when the member is first called, and is well-formed only if
  the construction in it is.
\<close>

definition acquire_iterable_view ::
  "bool \<Rightarrow> ReadLock \<Rightarrow> 'a ThreadSafeQueue \<Rightarrow>
     ('a IterableView \<times> 'a ThreadSafeQueue) outcome call" where
  "acquire_iterable_view ndebug lock this =
     (case construct_IterableView ndebug Const this lock of
        Well_formed construction \<Rightarrow>
          Well_formed
            (seq (ASSERT ndebug (is_valid_lock_ReadLock this lock)) (\<lambda>_.
             seq construction (\<lambda>view.
             Returns (view, this))))
      | No_matching_overload \<Rightarrow> No_matching_overload
      | Ill_formed \<Rightarrow> Ill_formed)"

text \<open>
  \<^verbatim>\<open>acquire_iterable_write_view\<close> is not const; \<^verbatim>\<open>*this\<close> binds to the constructor's
  parameter.
\<close>

definition acquire_iterable_write_view ::
  "bool \<Rightarrow> WriteLock \<Rightarrow> 'a ThreadSafeQueue \<Rightarrow> ('a IterableWriteView \<times> 'a ThreadSafeQueue) outcome" where
  "acquire_iterable_write_view ndebug lock this =
     seq (ASSERT ndebug (is_valid_lock_WriteLock this lock)) (\<lambda>_.
     seq (IterableWriteView ndebug this lock) (\<lambda>view.
     Returns (view, this)))"

subsection \<open>Overload resolution\<close>

text \<open>
  A call \<^verbatim>\<open>queue.f(lock)\<close> is resolved by the static type of \<^verbatim>\<open>lock\<close>. Neither lock
  type converts to the other, so the call selects the overload declared for that type,
  and has no matching overload when the header declares none. The functions below
  list, for each member, the overloads the header declares.
\<close>

datatype Lock = Read ReadLock | Write WriteLock

definition call_back ::
  "bool \<Rightarrow> Lock \<Rightarrow> 'a ThreadSafeQueue \<Rightarrow> ('a \<times> 'a ThreadSafeQueue) outcome call" where
  "call_back ndebug lock this = (case lock of
     Read l \<Rightarrow> Well_formed (back_ReadLock ndebug l this)
   | Write l \<Rightarrow> Well_formed (back_WriteLock ndebug l this))"

definition call_front ::
  "bool \<Rightarrow> Lock \<Rightarrow> 'a ThreadSafeQueue \<Rightarrow> ('a \<times> 'a ThreadSafeQueue) outcome call" where
  "call_front ndebug lock this = (case lock of
     Read l \<Rightarrow> Well_formed (front_ReadLock ndebug l this)
   | Write l \<Rightarrow> Well_formed (front_WriteLock ndebug l this))"

definition call_empty ::
  "bool \<Rightarrow> Lock \<Rightarrow> 'a ThreadSafeQueue \<Rightarrow> (bool \<times> 'a ThreadSafeQueue) outcome call" where
  "call_empty ndebug lock this = (case lock of
     Read l \<Rightarrow> Well_formed (empty_ReadLock ndebug l this)
   | Write l \<Rightarrow> Well_formed (empty_WriteLock ndebug l this))"

definition call_size ::
  "bool \<Rightarrow> Lock \<Rightarrow> 'a ThreadSafeQueue \<Rightarrow> (nat \<times> 'a ThreadSafeQueue) outcome call" where
  "call_size ndebug lock this = (case lock of
     Read l \<Rightarrow> Well_formed (size_ReadLock ndebug l this)
   | Write l \<Rightarrow> Well_formed (size_WriteLock ndebug l this))"

definition call_push ::
  "bool \<Rightarrow> 'a \<Rightarrow> Lock \<Rightarrow> 'a ThreadSafeQueue \<Rightarrow> (unit \<times> 'a ThreadSafeQueue) outcome call" where
  "call_push ndebug v lock this = (case lock of
     Read l \<Rightarrow> No_matching_overload
   | Write l \<Rightarrow> Well_formed (push ndebug v l this))"

definition call_pop ::
  "bool \<Rightarrow> Lock \<Rightarrow> 'a ThreadSafeQueue \<Rightarrow> ('a \<times> 'a ThreadSafeQueue) outcome call" where
  "call_pop ndebug lock this = (case lock of
     Read l \<Rightarrow> No_matching_overload
   | Write l \<Rightarrow> Well_formed (pop ndebug l this))"

definition call_IterableView ::
  "bool \<Rightarrow> constness \<Rightarrow> 'a ThreadSafeQueue \<Rightarrow> Lock \<Rightarrow> 'a IterableView outcome call" where
  "call_IterableView ndebug c queue lock = (case lock of
     Read l \<Rightarrow> construct_IterableView ndebug c queue l
   | Write l \<Rightarrow> No_matching_overload)"

definition call_IterableWriteView ::
  "bool \<Rightarrow> 'a ThreadSafeQueue \<Rightarrow> Lock \<Rightarrow> 'a IterableWriteView outcome call" where
  "call_IterableWriteView ndebug queue lock = (case lock of
     Read l \<Rightarrow> No_matching_overload
   | Write l \<Rightarrow> Well_formed (IterableWriteView ndebug queue l))"

definition call_acquire_iterable_view ::
  "bool \<Rightarrow> Lock \<Rightarrow> 'a ThreadSafeQueue \<Rightarrow>
     ('a IterableView \<times> 'a ThreadSafeQueue) outcome call" where
  "call_acquire_iterable_view ndebug lock this = (case lock of
     Read l \<Rightarrow> acquire_iterable_view ndebug l this
   | Write l \<Rightarrow> No_matching_overload)"

definition call_acquire_iterable_write_view ::
  "bool \<Rightarrow> Lock \<Rightarrow> 'a ThreadSafeQueue \<Rightarrow>
     ('a IterableWriteView \<times> 'a ThreadSafeQueue) outcome call" where
  "call_acquire_iterable_write_view ndebug lock this = (case lock of
     Read l \<Rightarrow> No_matching_overload
   | Write l \<Rightarrow> Well_formed (acquire_iterable_write_view ndebug l this))"

subsection \<open>Client code used to state the properties\<close>

text \<open>
  Traversal of a view is the range-based loop
  \<^verbatim>\<open>for (auto it = view.begin(); it != view.end(); ++it) use(*it);\<close>
  over the container \<open>xs\<close> the iterators point into. It collects the elements it
  visits. Reading or stepping from a position that is not inside the container is
  undefined.
\<close>

function range_for :: "'a SuperQueue \<Rightarrow> Iterator \<Rightarrow> Iterator \<Rightarrow> 'a list outcome" where
  "range_for xs it e =
     (if it = e then Returns []
      else if it < length xs then
        (case range_for xs (Suc it) e of
           Returns rest \<Rightarrow> Returns (xs ! it # rest)
         | Assertion_failed \<Rightarrow> Assertion_failed
         | Undefined_behaviour \<Rightarrow> Undefined_behaviour)
      else Undefined_behaviour)"
  by pat_completeness auto
termination
  by (relation "measure (\<lambda>(xs, it, e). length xs - it)") auto

definition traverse_IterableView :: "'a IterableView \<Rightarrow> 'a list outcome" where
  "traverse_IterableView view =
     range_for (SuperQueue (m_queue view)) (IterableView_begin view) (IterableView_end view)"

definition traverse_const_IterableWriteView :: "'a IterableWriteView \<Rightarrow> 'a list outcome" where
  "traverse_const_IterableWriteView view =
     range_for (SuperQueue (m_queue_w view))
       (IterableWriteView_cbegin view) (IterableWriteView_cend view)"

definition traverse_IterableWriteView :: "'a IterableWriteView \<Rightarrow> 'a list outcome" where
  "traverse_IterableWriteView view =
     range_for (SuperQueue (m_queue_w view))
       (IterableWriteView_begin view) (IterableWriteView_end view)"

text \<open>
  A run of pushes, each with the lock of its own scope, and a run of pops, likewise,
  collecting the popped values in the order of the calls. A failing call ends the run.
\<close>

fun push_each ::
  "bool \<Rightarrow> ('a \<times> WriteLock) list \<Rightarrow> 'a ThreadSafeQueue \<Rightarrow> 'a ThreadSafeQueue outcome" where
  "push_each ndebug [] this = Returns this"
| "push_each ndebug ((v, lock) # rest) this =
     (case push ndebug v lock this of
        Returns (_, this') \<Rightarrow> push_each ndebug rest this'
      | Assertion_failed \<Rightarrow> Assertion_failed
      | Undefined_behaviour \<Rightarrow> Undefined_behaviour)"

fun pop_each ::
  "bool \<Rightarrow> WriteLock list \<Rightarrow> 'a ThreadSafeQueue \<Rightarrow> ('a list \<times> 'a ThreadSafeQueue) outcome" where
  "pop_each ndebug [] this = Returns ([], this)"
| "pop_each ndebug (lock # rest) this =
     (case pop ndebug lock this of
        Returns (v, this') \<Rightarrow>
          (case pop_each ndebug rest this' of
             Returns (vs, this'') \<Rightarrow> Returns (v # vs, this'')
           | Assertion_failed \<Rightarrow> Assertion_failed
           | Undefined_behaviour \<Rightarrow> Undefined_behaviour)
      | Assertion_failed \<Rightarrow> Assertion_failed
      | Undefined_behaviour \<Rightarrow> Undefined_behaviour)"

text \<open>The state a call leaves behind, when it returns.\<close>

definition state_after :: "('r \<times> 's) outcome \<Rightarrow> 's option" where
  "state_after r = (case r of Returns (_, s) \<Rightarrow> Some s | _ \<Rightarrow> None)"

section \<open>Properties\<close>

subsection \<open>Evaluation rules\<close>

lemma seq_simps [simp]:
  "seq (Returns r) k = k r"
  "seq Assertion_failed k = Assertion_failed"
  "seq Undefined_behaviour k = Undefined_behaviour"
  by (simp_all add: seq_def)

lemma ASSERT_simps [simp]:
  "c \<Longrightarrow> ASSERT ndebug c = Returns ()"
  "ASSERT True c = Returns ()"
  "\<not> c \<Longrightarrow> ASSERT False c = Assertion_failed"
  by (simp_all add: ASSERT_def)

lemma ASSERT_cases:
  "seq (ASSERT ndebug c) k = (if ndebug \<or> c then k () else Assertion_failed)"
  by (simp add: ASSERT_def)

text \<open>Validation looks at the mutex only, never at the stored elements.\<close>

lemma is_valid_lock_WriteLock_SuperQueue_update [simp]:
  "is_valid_lock_WriteLock (this\<lparr>SuperQueue := xs\<rparr>) lock = is_valid_lock_WriteLock this lock"
  by (simp add: is_valid_lock_WriteLock_def)

lemma is_valid_lock_ReadLock_SuperQueue_update [simp]:
  "is_valid_lock_ReadLock (this\<lparr>SuperQueue := xs\<rparr>) lock = is_valid_lock_ReadLock this lock"
  by (simp add: is_valid_lock_ReadLock_def)

lemma push_valid:
  "is_valid_lock_WriteLock this lock \<Longrightarrow>
   push ndebug v lock this = Returns ((), this\<lparr>SuperQueue := SuperQueue this @ [v]\<rparr>)"
  by (simp add: push_def deque_push_back_def)

lemma pop_valid:
  "is_valid_lock_WriteLock this lock \<Longrightarrow> SuperQueue this = x # xs \<Longrightarrow>
   pop ndebug lock this = Returns (x, this\<lparr>SuperQueue := xs\<rparr>)"
  by (simp add: pop_def deque_front_def deque_pop_front_def)

lemmas read_defs =
  back_ReadLock_def front_ReadLock_def back_WriteLock_def front_WriteLock_def
  empty_ReadLock_def empty_WriteLock_def size_ReadLock_def size_WriteLock_def

lemmas deque_defs =
  deque_back_def deque_front_def deque_empty_def deque_size_def deque_push_back_def
  deque_pop_front_def deque_begin_def deque_end_def

lemmas view_defs =
  IterableView_def IterableWriteView_def acquire_iterable_write_view_def

lemmas call_defs =
  call_back_def call_front_def call_empty_def call_size_def call_push_def call_pop_def
  call_IterableView_def call_IterableWriteView_def call_acquire_iterable_view_def
  call_acquire_iterable_write_view_def

text \<open>No call of \<^verbatim>\<open>acquire_iterable_view\<close> compiles, whatever lock it is given.\<close>

lemma acquire_iterable_view_ill_formed:
  "acquire_iterable_view ndebug lock this = Ill_formed"
  by (simp add: acquire_iterable_view_def construct_IterableView_def)

subsection \<open>Runs of pushes and pops\<close>

lemma push_each_valid:
  "\<forall>(v, lock) \<in> set pushes. is_valid_lock_WriteLock this lock \<Longrightarrow>
   push_each ndebug pushes this =
     Returns (this\<lparr>SuperQueue := SuperQueue this @ map fst pushes\<rparr>)"
proof (induction pushes arbitrary: this)
  case Nil
  then show ?case by simp
next
  case (Cons p pushes)
  obtain v lock where p: "p = (v, lock)" by (cases p)
  from Cons.prems p have valid: "is_valid_lock_WriteLock this lock" by simp
  let ?next = "this\<lparr>SuperQueue := SuperQueue this @ [v]\<rparr>"
  from Cons.prems have "\<forall>(v, lock) \<in> set pushes. is_valid_lock_WriteLock ?next lock"
    by auto
  then have "push_each ndebug pushes ?next =
      Returns (?next\<lparr>SuperQueue := SuperQueue ?next @ map fst pushes\<rparr>)"
    by (rule Cons.IH)
  with valid p show ?case by (simp add: push_valid)
qed

lemma pop_each_valid:
  "\<forall>lock \<in> set pops. is_valid_lock_WriteLock this lock \<Longrightarrow>
   length pops \<le> length (SuperQueue this) \<Longrightarrow>
   pop_each ndebug pops this =
     Returns (take (length pops) (SuperQueue this),
              this\<lparr>SuperQueue := drop (length pops) (SuperQueue this)\<rparr>)"
proof (induction pops arbitrary: this)
  case Nil
  then show ?case by simp
next
  case (Cons lock pops)
  from Cons.prems obtain x xs where xs: "SuperQueue this = x # xs"
    by (cases "SuperQueue this") auto
  from Cons.prems have valid: "is_valid_lock_WriteLock this lock" by simp
  let ?next = "this\<lparr>SuperQueue := xs\<rparr>"
  from Cons.prems xs have "\<forall>lock \<in> set pops. is_valid_lock_WriteLock ?next lock"
    and "length pops \<le> length (SuperQueue ?next)" by auto
  then have "pop_each ndebug pops ?next =
     Returns (take (length pops) (SuperQueue ?next),
              ?next\<lparr>SuperQueue := drop (length pops) (SuperQueue ?next)\<rparr>)"
    by (rule Cons.IH)
  with valid xs show ?case by (simp add: pop_valid)
qed

text \<open>
  C1 (FIFO order). Start from an empty queue. Push the values \<open>v1..vn\<close>, each call
  presenting a write lock on this queue's mutex, then pop \<open>n\<close> times, again each call
  presenting such a lock. Every call returns, the pops return \<open>v1..vn\<close> in exactly that
  order, and the queue is empty again. This holds with and without \<^verbatim>\<open>NDEBUG\<close>.
\<close>

theorem fifo_order:
  assumes "SuperQueue this = []"
    and "\<forall>(v, lock) \<in> set pushes. is_valid_lock_WriteLock this lock"
    and "\<forall>lock \<in> set pops. is_valid_lock_WriteLock this lock"
    and "length pops = length pushes"
  shows "seq (push_each ndebug pushes this) (pop_each ndebug pops)
           = Returns (map fst pushes, this)"
proof -
  let ?full = "this\<lparr>SuperQueue := map fst pushes\<rparr>"
  have "push_each ndebug pushes this
          = Returns (this\<lparr>SuperQueue := SuperQueue this @ map fst pushes\<rparr>)"
    using assms(2) by (rule push_each_valid)
  with assms(1) have pushed: "push_each ndebug pushes this = Returns ?full"
    by simp
  from assms(3) have "\<forall>lock \<in> set pops. is_valid_lock_WriteLock ?full lock"
    by simp
  moreover from assms(4) have "length pops \<le> length (SuperQueue ?full)"
    by simp
  ultimately have "pop_each ndebug pops ?full =
      Returns (take (length pops) (SuperQueue ?full),
               ?full\<lparr>SuperQueue := drop (length pops) (SuperQueue ?full)\<rparr>)"
    by (rule pop_each_valid)
  with assms(4) have "pop_each ndebug pops ?full
      = Returns (map fst pushes, this\<lparr>SuperQueue := []\<rparr>)"
    by simp
  moreover from assms(1) have "this\<lparr>SuperQueue := []\<rparr> = this"
    by simp
  ultimately show ?thesis using pushed by simp
qed

theorem fifo_order_witness:
  "SuperQueue (ThreadSafeQueue 7 :: nat ThreadSafeQueue) = []
   \<and> is_valid_lock_WriteLock (ThreadSafeQueue 7 :: nat ThreadSafeQueue)
        (acquire_write_lock (ThreadSafeQueue 7 :: nat ThreadSafeQueue))
   \<and> is_valid_lock_WriteLock (ThreadSafeQueue 7 :: nat ThreadSafeQueue) (WriteLock (Some 7) True)
   \<and> seq (push_each False
          [(1::nat, acquire_write_lock (ThreadSafeQueue 7 :: nat ThreadSafeQueue)),
           (2, WriteLock (Some 7) True), (3, WriteLock (Some 7) True)] (ThreadSafeQueue 7))
        (pop_each False
          [WriteLock (Some 7) True, WriteLock (Some 7) True, WriteLock (Some 7) True])
      = Returns ([1, 2, 3], ThreadSafeQueue 7)"
  using fifo_order [of "ThreadSafeQueue 7 :: nat ThreadSafeQueue"
        "[(1::nat, acquire_write_lock (ThreadSafeQueue 7 :: nat ThreadSafeQueue)),
          (2, WriteLock (Some 7) True), (3, WriteLock (Some 7) True)]"
        "[WriteLock (Some 7) True, WriteLock (Some 7) True, WriteLock (Some 7) True]" False]
  by (simp add: is_valid_lock_WriteLock_def acquire_write_lock_def ThreadSafeQueue_def)

subsection \<open>Access to an empty queue\<close>

text \<open>
  C2 (empty-queue signaling), as the header implements it. \<^verbatim>\<open>pop\<close>, \<^verbatim>\<open>front\<close> and
  \<^verbatim>\<open>back\<close> make no emptiness check and the header defines no EmptyQueue condition: with
  a lock on the queue's own mutex and an empty queue, each of them passes validation
  and then calls \<^verbatim>\<open>std::deque::front\<close> or \<^verbatim>\<open>std::deque::back\<close> on an empty container,
  which is undefined behaviour. Emptiness is reported by \<^verbatim>\<open>empty\<close> and \<^verbatim>\<open>size\<close>, which
  return \<open>True\<close> and \<open>0\<close>; the caller has to ask them first.
\<close>

theorem empty_queue_access_undefined:
  assumes "SuperQueue this = []"
    and "is_valid_lock_ReadLock this rl"
    and "is_valid_lock_WriteLock this wl"
  shows "pop ndebug wl this = Undefined_behaviour
       \<and> front_ReadLock ndebug rl this = Undefined_behaviour
       \<and> front_WriteLock ndebug wl this = Undefined_behaviour
       \<and> back_ReadLock ndebug rl this = Undefined_behaviour
       \<and> back_WriteLock ndebug wl this = Undefined_behaviour
       \<and> empty_ReadLock ndebug rl this = Returns (True, this)
       \<and> size_ReadLock ndebug rl this = Returns (0, this)"
  using assms by (simp add: pop_def read_defs deque_defs)

theorem empty_queue_access_undefined_witness:
  "SuperQueue (ThreadSafeQueue 1 :: nat ThreadSafeQueue) = []
   \<and> is_valid_lock_ReadLock (ThreadSafeQueue 1 :: nat ThreadSafeQueue) (ReadLock (Some 1) True)
   \<and> is_valid_lock_WriteLock (ThreadSafeQueue 1 :: nat ThreadSafeQueue) (WriteLock (Some 1) True)
   \<and> pop False (WriteLock (Some 1) True) (ThreadSafeQueue 1 :: nat ThreadSafeQueue)
       = Undefined_behaviour
   \<and> empty_ReadLock False (ReadLock (Some 1) True) (ThreadSafeQueue 1 :: nat ThreadSafeQueue)
       = Returns (True, ThreadSafeQueue 1)"
  using empty_queue_access_undefined [of "ThreadSafeQueue 1 :: nat ThreadSafeQueue"
      "ReadLock (Some 1) True" "WriteLock (Some 1) True" False]
  by (simp add: ThreadSafeQueue_def is_valid_lock_ReadLock_def is_valid_lock_WriteLock_def)

text \<open>
  The claim as the specification states it requires a defined EmptyQueue signal and no
  crash or dangling value. On a newly constructed queue, whose size is 0, with locks
  acquired from that queue, the three calls are undefined behaviour instead, in a
  build with the assertion and in one without.
\<close>

theorem empty_queue_signaling_counterexample:
  "size_WriteLock False (acquire_write_lock (ThreadSafeQueue 1 :: nat ThreadSafeQueue))
       (ThreadSafeQueue 1)
     = Returns (0, ThreadSafeQueue 1 :: nat ThreadSafeQueue)
   \<and> pop False (acquire_write_lock (ThreadSafeQueue 1 :: nat ThreadSafeQueue)) (ThreadSafeQueue 1)
     = (Undefined_behaviour :: (nat \<times> nat ThreadSafeQueue) outcome)
   \<and> front_ReadLock False (acquire_read_lock (ThreadSafeQueue 1 :: nat ThreadSafeQueue))
       (ThreadSafeQueue 1)
     = (Undefined_behaviour :: (nat \<times> nat ThreadSafeQueue) outcome)
   \<and> back_ReadLock False (acquire_read_lock (ThreadSafeQueue 1 :: nat ThreadSafeQueue))
       (ThreadSafeQueue 1)
     = (Undefined_behaviour :: (nat \<times> nat ThreadSafeQueue) outcome)
   \<and> pop True (acquire_write_lock (ThreadSafeQueue 1 :: nat ThreadSafeQueue)) (ThreadSafeQueue 1)
     = (Undefined_behaviour :: (nat \<times> nat ThreadSafeQueue) outcome)
   \<and> front_ReadLock True (acquire_read_lock (ThreadSafeQueue 1 :: nat ThreadSafeQueue))
       (ThreadSafeQueue 1)
     = (Undefined_behaviour :: (nat \<times> nat ThreadSafeQueue) outcome)
   \<and> back_ReadLock True (acquire_read_lock (ThreadSafeQueue 1 :: nat ThreadSafeQueue))
       (ThreadSafeQueue 1)
     = (Undefined_behaviour :: (nat \<times> nat ThreadSafeQueue) outcome)"
  by (simp add: ThreadSafeQueue_def acquire_write_lock_def acquire_read_lock_def
      is_valid_lock_ReadLock_def is_valid_lock_WriteLock_def pop_def read_defs deque_defs)

subsection \<open>Token validation\<close>

text \<open>
  C3 (cross-instance token rejection), as the header implements it. Validation is an
  \<^verbatim>\<open>ASSERT\<close>. In a build with the assertion compiled in (\<^verbatim>\<open>NDEBUG\<close> not defined), every
  member function that can be called with a lock, and both view constructors, stop in
  the assertion when the lock's mutex is not the receiving queue's mutex; the outcome
  does not depend on the stored elements (it is the assertion failure even where the
  container is empty and the access itself would be undefined), so the check comes
  before any access to storage. In a build with \<^verbatim>\<open>NDEBUG\<close> the header performs no
  validation: the same calls go ahead exactly as they do with the queue's own lock,
  and \<^verbatim>\<open>push\<close> appends.
\<close>

theorem cross_instance_token_rejected:
  assumes "\<not> is_valid_lock_ReadLock this rl"
    and "\<not> is_valid_lock_WriteLock this wl"
  shows "back_ReadLock False rl this = Assertion_failed
       \<and> front_ReadLock False rl this = Assertion_failed
       \<and> back_WriteLock False wl this = Assertion_failed
       \<and> front_WriteLock False wl this = Assertion_failed
       \<and> empty_ReadLock False rl this = Assertion_failed
       \<and> empty_WriteLock False wl this = Assertion_failed
       \<and> size_ReadLock False rl this = Assertion_failed
       \<and> size_WriteLock False wl this = Assertion_failed
       \<and> push False v wl this = Assertion_failed
       \<and> pop False wl this = Assertion_failed
       \<and> IterableView False this rl = Assertion_failed
       \<and> IterableWriteView False this wl = Assertion_failed
       \<and> acquire_iterable_write_view False wl this = Assertion_failed
       \<and> back_ReadLock True rl this = back_ReadLock True (acquire_read_lock this) this
       \<and> front_ReadLock True rl this = front_ReadLock True (acquire_read_lock this) this
       \<and> back_WriteLock True wl this = back_WriteLock True (acquire_write_lock this) this
       \<and> front_WriteLock True wl this = front_WriteLock True (acquire_write_lock this) this
       \<and> empty_ReadLock True rl this = empty_ReadLock True (acquire_read_lock this) this
       \<and> empty_WriteLock True wl this = empty_WriteLock True (acquire_write_lock this) this
       \<and> size_ReadLock True rl this = size_ReadLock True (acquire_read_lock this) this
       \<and> size_WriteLock True wl this = size_WriteLock True (acquire_write_lock this) this
       \<and> pop True wl this = pop True (acquire_write_lock this) this
       \<and> push True v wl this = Returns ((), this\<lparr>SuperQueue := SuperQueue this @ [v]\<rparr>)
       \<and> IterableView True this rl = Returns \<lparr>m_queue = this, m_lock = rl\<rparr>
       \<and> IterableWriteView True this wl = Returns \<lparr>m_queue_w = this, m_lock_w = wl\<rparr>
       \<and> acquire_iterable_write_view True wl this
           = Returns (\<lparr>m_queue_w = this, m_lock_w = wl\<rparr>, this)"
  using assms by (simp add: read_defs push_def pop_def view_defs deque_push_back_def)

theorem cross_instance_token_rejected_witness:
  "\<not> is_valid_lock_ReadLock (ThreadSafeQueue 2 :: nat ThreadSafeQueue)
        (acquire_read_lock (ThreadSafeQueue 1 :: nat ThreadSafeQueue))
   \<and> \<not> is_valid_lock_WriteLock (ThreadSafeQueue 2 :: nat ThreadSafeQueue)
        (acquire_write_lock (ThreadSafeQueue 1 :: nat ThreadSafeQueue))
   \<and> front_ReadLock False (acquire_read_lock (ThreadSafeQueue 1 :: nat ThreadSafeQueue))
        (ThreadSafeQueue 2 :: nat ThreadSafeQueue) = Assertion_failed
   \<and> push False 5 (acquire_write_lock (ThreadSafeQueue 1 :: nat ThreadSafeQueue))
        (ThreadSafeQueue 2 :: nat ThreadSafeQueue) = Assertion_failed
   \<and> pop False (acquire_write_lock (ThreadSafeQueue 1 :: nat ThreadSafeQueue))
        (ThreadSafeQueue 2 :: nat ThreadSafeQueue) = Assertion_failed"
  using cross_instance_token_rejected [of "ThreadSafeQueue 2 :: nat ThreadSafeQueue"
      "acquire_read_lock (ThreadSafeQueue 1 :: nat ThreadSafeQueue)"
      "acquire_write_lock (ThreadSafeQueue 1 :: nat ThreadSafeQueue)" 5]
  by (simp add: ThreadSafeQueue_def acquire_read_lock_def acquire_write_lock_def
      is_valid_lock_ReadLock_def is_valid_lock_WriteLock_def)

text \<open>
  The claim as the specification states it has every operation fail fast on a token of
  another queue and never go ahead. Compiled with \<^verbatim>\<open>NDEBUG\<close>, \<^verbatim>\<open>push\<close> on the queue whose
  mutex is at address 2, called with the write lock acquired from the queue whose
  mutex is at address 1, fails validation and yet returns, having appended to the
  queue; \<^verbatim>\<open>size\<close> with the foreign read lock reads the queue.
\<close>

theorem cross_instance_token_counterexample:
  "\<not> is_valid_lock_WriteLock (ThreadSafeQueue 2 :: nat ThreadSafeQueue)
        (acquire_write_lock (ThreadSafeQueue 1 :: nat ThreadSafeQueue))
   \<and> push True 5 (acquire_write_lock (ThreadSafeQueue 1 :: nat ThreadSafeQueue))
        (ThreadSafeQueue 2 :: nat ThreadSafeQueue)
       = Returns ((), \<lparr>SuperQueue = [5], m_mutex = 2\<rparr>)
   \<and> \<not> is_valid_lock_ReadLock \<lparr>SuperQueue = [5 :: nat], m_mutex = 2\<rparr>
        (acquire_read_lock (ThreadSafeQueue 1 :: nat ThreadSafeQueue))
   \<and> size_ReadLock True (acquire_read_lock (ThreadSafeQueue 1 :: nat ThreadSafeQueue))
        \<lparr>SuperQueue = [5 :: nat], m_mutex = 2\<rparr>
       = Returns (1, \<lparr>SuperQueue = [5], m_mutex = 2\<rparr>)"
  by (simp add: ThreadSafeQueue_def acquire_read_lock_def acquire_write_lock_def
      is_valid_lock_ReadLock_def is_valid_lock_WriteLock_def push_def size_ReadLock_def
      deque_defs)

subsection \<open>Which lock type each member accepts\<close>

text \<open>
  The \<^verbatim>\<open>WriteLock\<close> overloads of \<^verbatim>\<open>back\<close>, \<^verbatim>\<open>front\<close>, \<^verbatim>\<open>empty\<close> and \<^verbatim>\<open>size\<close> do what
  the \<^verbatim>\<open>ReadLock\<close> overloads do: a write lock passes validation exactly when a read lock
  on the same mutex does, and the call has the same outcome.
\<close>

lemma WriteLock_overloads_agree:
  "is_valid_lock_WriteLock this (WriteLock m b1) = is_valid_lock_ReadLock this (ReadLock m b2)"
  "back_WriteLock ndebug (WriteLock m b1) this = back_ReadLock ndebug (ReadLock m b2) this"
  "front_WriteLock ndebug (WriteLock m b1) this = front_ReadLock ndebug (ReadLock m b2) this"
  "empty_WriteLock ndebug (WriteLock m b1) this = empty_ReadLock ndebug (ReadLock m b2) this"
  "size_WriteLock ndebug (WriteLock m b1) this = size_ReadLock ndebug (ReadLock m b2) this"
  by (simp_all add: read_defs is_valid_lock_ReadLock_def is_valid_lock_WriteLock_def)

text \<open>
  C4 (write-token substitution), at the input where the header departs from it. Take a
  newly constructed queue and the write lock acquired from it. \<^verbatim>\<open>size\<close> and \<^verbatim>\<open>empty\<close>
  accept the write lock and return 0 and \<open>True\<close>, and \<^verbatim>\<open>push\<close> accepts it, while a read
  lock has no \<^verbatim>\<open>push\<close> to select. \<^verbatim>\<open>acquire_iterable_view\<close> and the constructor of
  \<^verbatim>\<open>IterableView\<close> are declared for \<^verbatim>\<open>ReadLock&\<close> alone: called with the write lock they
  have no matching overload, where the claim has them accept it. Called with the read
  lock, \<^verbatim>\<open>acquire_iterable_view\<close> is ill-formed as well.
\<close>

theorem write_lock_iterable_view_no_overload:
  "call_acquire_iterable_view False
       (Write (acquire_write_lock (ThreadSafeQueue 1 :: nat ThreadSafeQueue)))
       (ThreadSafeQueue 1 :: nat ThreadSafeQueue)
     = No_matching_overload
   \<and> call_IterableView False Non_const (ThreadSafeQueue 1 :: nat ThreadSafeQueue)
       (Write (acquire_write_lock (ThreadSafeQueue 1 :: nat ThreadSafeQueue)))
     = No_matching_overload
   \<and> call_size False (Write (acquire_write_lock (ThreadSafeQueue 1 :: nat ThreadSafeQueue)))
       (ThreadSafeQueue 1 :: nat ThreadSafeQueue)
     = Well_formed (Returns (0, ThreadSafeQueue 1))
   \<and> call_empty False (Write (acquire_write_lock (ThreadSafeQueue 1 :: nat ThreadSafeQueue)))
       (ThreadSafeQueue 1 :: nat ThreadSafeQueue)
     = Well_formed (Returns (True, ThreadSafeQueue 1))
   \<and> call_push False (5 :: nat)
       (Write (acquire_write_lock (ThreadSafeQueue 1 :: nat ThreadSafeQueue))) (ThreadSafeQueue 1)
     = Well_formed (Returns ((), \<lparr>SuperQueue = [5], m_mutex = 1\<rparr>))
   \<and> call_push False (5 :: nat)
       (Read (acquire_read_lock (ThreadSafeQueue 1 :: nat ThreadSafeQueue))) (ThreadSafeQueue 1)
     = No_matching_overload
   \<and> call_acquire_iterable_view False
       (Read (acquire_read_lock (ThreadSafeQueue 1 :: nat ThreadSafeQueue)))
       (ThreadSafeQueue 1 :: nat ThreadSafeQueue)
     = Ill_formed"
  by (simp add: call_defs acquire_iterable_view_ill_formed ThreadSafeQueue_def
      acquire_write_lock_def acquire_read_lock_def is_valid_lock_WriteLock_def
      size_WriteLock_def empty_WriteLock_def push_def deque_defs)

subsection \<open>Postconditions of pop and push\<close>

text \<open>
  C5 (pop postcondition). On a non-empty queue \<open>x # xs\<close>, with a write lock on the
  queue's mutex, \<^verbatim>\<open>pop\<close> returns the head \<open>x\<close> (the element \<^verbatim>\<open>front\<close> returns), by value,
  and leaves exactly the remaining elements \<open>xs\<close> in their order; the size goes from
  \<open>Suc (length xs)\<close> to \<open>length xs\<close>.
\<close>

theorem pop_postcondition:
  assumes "is_valid_lock_WriteLock this lock"
    and "SuperQueue this = x # xs"
  shows "pop ndebug lock this = Returns (x, this\<lparr>SuperQueue := xs\<rparr>)
       \<and> front_WriteLock ndebug lock this = Returns (x, this)
       \<and> size_WriteLock ndebug lock this = Returns (Suc (length xs), this)
       \<and> size_WriteLock ndebug lock (this\<lparr>SuperQueue := xs\<rparr>)
           = Returns (length xs, this\<lparr>SuperQueue := xs\<rparr>)"
  using assms by (simp add: pop_valid read_defs deque_defs)

theorem pop_postcondition_witness:
  "is_valid_lock_WriteLock \<lparr>SuperQueue = [4, 5, 6 :: nat], m_mutex = 3\<rparr> (WriteLock (Some 3) True)
   \<and> pop False (WriteLock (Some 3) True) \<lparr>SuperQueue = [4, 5, 6 :: nat], m_mutex = 3\<rparr>
       = Returns (4, \<lparr>SuperQueue = [5, 6], m_mutex = 3\<rparr>)
   \<and> size_WriteLock False (WriteLock (Some 3) True) \<lparr>SuperQueue = [4, 5, 6 :: nat], m_mutex = 3\<rparr>
       = Returns (3, \<lparr>SuperQueue = [4, 5, 6], m_mutex = 3\<rparr>)
   \<and> size_WriteLock False (WriteLock (Some 3) True) \<lparr>SuperQueue = [5, 6 :: nat], m_mutex = 3\<rparr>
       = Returns (2, \<lparr>SuperQueue = [5, 6], m_mutex = 3\<rparr>)"
  using pop_postcondition [of "\<lparr>SuperQueue = [4, 5, 6 :: nat], m_mutex = 3\<rparr>"
      "WriteLock (Some 3) True" 4 "[5, 6]" False]
  by (simp add: is_valid_lock_WriteLock_def)

text \<open>
  C6 (push postcondition). With a write lock on the queue's mutex, \<^verbatim>\<open>push\<close> returns,
  for every queue state and value \<open>v\<close>. Afterwards the elements are the previous ones,
  unchanged and in their order, followed by \<open>v\<close>; \<^verbatim>\<open>back\<close> returns \<open>v\<close>; the size has
  grown by exactly one.
\<close>

theorem push_postcondition:
  assumes "is_valid_lock_WriteLock this lock"
  shows "push ndebug v lock this = Returns ((), this\<lparr>SuperQueue := SuperQueue this @ [v]\<rparr>)
       \<and> back_WriteLock ndebug lock (this\<lparr>SuperQueue := SuperQueue this @ [v]\<rparr>)
           = Returns (v, this\<lparr>SuperQueue := SuperQueue this @ [v]\<rparr>)
       \<and> size_WriteLock ndebug lock this = Returns (length (SuperQueue this), this)
       \<and> size_WriteLock ndebug lock (this\<lparr>SuperQueue := SuperQueue this @ [v]\<rparr>)
           = Returns (Suc (length (SuperQueue this)),
                      this\<lparr>SuperQueue := SuperQueue this @ [v]\<rparr>)"
  using assms by (simp add: push_valid read_defs deque_defs)

theorem push_postcondition_witness:
  "is_valid_lock_WriteLock \<lparr>SuperQueue = [4, 5 :: nat], m_mutex = 3\<rparr> (WriteLock (Some 3) True)
   \<and> push False 6 (WriteLock (Some 3) True) \<lparr>SuperQueue = [4, 5 :: nat], m_mutex = 3\<rparr>
       = Returns ((), \<lparr>SuperQueue = [4, 5, 6], m_mutex = 3\<rparr>)
   \<and> back_WriteLock False (WriteLock (Some 3) True) \<lparr>SuperQueue = [4, 5, 6 :: nat], m_mutex = 3\<rparr>
       = Returns (6, \<lparr>SuperQueue = [4, 5, 6], m_mutex = 3\<rparr>)"
  using push_postcondition [of "\<lparr>SuperQueue = [4, 5 :: nat], m_mutex = 3\<rparr>"
      "WriteLock (Some 3) True" False 6]
  by (simp add: is_valid_lock_WriteLock_def)

subsection \<open>Traversal of the views\<close>

text \<open>Walking from any position inside the container to its end visits the rest of it.\<close>

lemma range_for_to_end:
  "it \<le> length xs \<Longrightarrow> range_for xs it (length xs) = Returns (drop it xs)"
proof (induction "length xs - it" arbitrary: it)
  case 0
  then show ?case by simp
next
  case (Suc n)
  then have inside: "it < length xs" by simp
  with Suc have "range_for xs (Suc it) (length xs) = Returns (drop (Suc it) xs)"
    by simp
  with inside show ?case
    by (subst range_for.simps) (simp add: Cons_nth_drop_Suc)
qed

text \<open>
  C7 (view traversal order). An \<^verbatim>\<open>IterableView\<close> constructed with a read lock on the
  queue's mutex, and an \<^verbatim>\<open>IterableWriteView\<close> constructed with a write lock on it,
  directly or through \<^verbatim>\<open>acquire_iterable_write_view\<close>, is traversed from \<^verbatim>\<open>begin()\<close> to
  \<^verbatim>\<open>end()\<close> by a loop that ends, and the elements visited are exactly the queue's
  elements from front to back. This holds for both iterator pairs of
  \<^verbatim>\<open>IterableWriteView\<close>.
\<close>

theorem view_traversal_order:
  assumes "is_valid_lock_ReadLock this rl"
    and "is_valid_lock_WriteLock this wl"
  shows "seq (IterableView ndebug this rl) traverse_IterableView = Returns (SuperQueue this)
       \<and> seq (IterableWriteView ndebug this wl) traverse_IterableWriteView
           = Returns (SuperQueue this)
       \<and> seq (IterableWriteView ndebug this wl) traverse_const_IterableWriteView
           = Returns (SuperQueue this)
       \<and> seq (acquire_iterable_write_view ndebug wl this)
             (\<lambda>(view, _). traverse_IterableWriteView view)
           = Returns (SuperQueue this)"
  using assms
  by (simp add: view_defs traverse_IterableView_def traverse_IterableWriteView_def
      traverse_const_IterableWriteView_def IterableView_begin_def IterableView_end_def
      IterableWriteView_begin_def IterableWriteView_end_def IterableWriteView_cbegin_def
      IterableWriteView_cend_def deque_begin_def deque_end_def range_for_to_end
      del: range_for.simps)

theorem view_traversal_order_witness:
  "is_valid_lock_ReadLock \<lparr>SuperQueue = [4, 5, 6 :: nat], m_mutex = 3\<rparr> (ReadLock (Some 3) True)
   \<and> is_valid_lock_WriteLock \<lparr>SuperQueue = [4, 5, 6 :: nat], m_mutex = 3\<rparr> (WriteLock (Some 3) True)
   \<and> seq (IterableView False \<lparr>SuperQueue = [4, 5, 6 :: nat], m_mutex = 3\<rparr>
            (ReadLock (Some 3) True))
        traverse_IterableView = Returns [4, 5, 6]
   \<and> seq (IterableWriteView False \<lparr>SuperQueue = [4, 5, 6 :: nat], m_mutex = 3\<rparr>
            (WriteLock (Some 3) True))
        traverse_IterableWriteView = Returns [4, 5, 6]"
  using view_traversal_order [of "\<lparr>SuperQueue = [4, 5, 6 :: nat], m_mutex = 3\<rparr>"
      "ReadLock (Some 3) True" "WriteLock (Some 3) True" False]
  by (simp add: is_valid_lock_ReadLock_def is_valid_lock_WriteLock_def)

subsection \<open>Observers\<close>

text \<open>
  C9 (observers are pure). \<^verbatim>\<open>back\<close>, \<^verbatim>\<open>front\<close>, \<^verbatim>\<open>empty\<close> and \<^verbatim>\<open>size\<close>, in both
  overloads, leave the queue exactly as it was: whenever one of them returns, the
  state after the call is the state before it. The right-hand sides say when each
  call returns at all: the lock passes validation or the build has no validation,
  and for \<^verbatim>\<open>back\<close> and \<^verbatim>\<open>front\<close> the queue is not empty. \<^verbatim>\<open>acquire_iterable_view\<close> has no
  call that compiles, so there is no execution of it that could change the queue.
\<close>

theorem observers_pure:
  "state_after (back_ReadLock ndebug rl this)
     = (if (ndebug \<or> is_valid_lock_ReadLock this rl) \<and> SuperQueue this \<noteq> []
        then Some this else None)
   \<and> state_after (front_ReadLock ndebug rl this)
     = (if (ndebug \<or> is_valid_lock_ReadLock this rl) \<and> SuperQueue this \<noteq> []
        then Some this else None)
   \<and> state_after (back_WriteLock ndebug wl this)
     = (if (ndebug \<or> is_valid_lock_WriteLock this wl) \<and> SuperQueue this \<noteq> []
        then Some this else None)
   \<and> state_after (front_WriteLock ndebug wl this)
     = (if (ndebug \<or> is_valid_lock_WriteLock this wl) \<and> SuperQueue this \<noteq> []
        then Some this else None)
   \<and> state_after (empty_ReadLock ndebug rl this)
     = (if ndebug \<or> is_valid_lock_ReadLock this rl then Some this else None)
   \<and> state_after (empty_WriteLock ndebug wl this)
     = (if ndebug \<or> is_valid_lock_WriteLock this wl then Some this else None)
   \<and> state_after (size_ReadLock ndebug rl this)
     = (if ndebug \<or> is_valid_lock_ReadLock this rl then Some this else None)
   \<and> state_after (size_WriteLock ndebug wl this)
     = (if ndebug \<or> is_valid_lock_WriteLock this wl then Some this else None)
   \<and> acquire_iterable_view ndebug rl this = Ill_formed"
  by (cases "SuperQueue this")
     (simp_all add: state_after_def read_defs deque_defs ASSERT_cases
        acquire_iterable_view_ill_formed)

subsection \<open>Tokens of the queue itself\<close>

text \<open>
  C10 (own-token validation always succeeds). The lock that \<^verbatim>\<open>acquire_read_lock\<close> or
  \<^verbatim>\<open>acquire_write_lock\<close> of a queue returns passes that queue's validation, and keeps
  passing it whatever elements the queue holds later; no member function called with
  it ends in the assertion failure.
\<close>

theorem own_token_passes_validation:
  "is_valid_lock_ReadLock this (acquire_read_lock this)
   \<and> is_valid_lock_WriteLock this (acquire_write_lock this)
   \<and> is_valid_lock_ReadLock (this\<lparr>SuperQueue := xs\<rparr>) (acquire_read_lock this)
   \<and> is_valid_lock_WriteLock (this\<lparr>SuperQueue := xs\<rparr>) (acquire_write_lock this)
   \<and> back_ReadLock ndebug (acquire_read_lock this) this \<noteq> Assertion_failed
   \<and> front_ReadLock ndebug (acquire_read_lock this) this \<noteq> Assertion_failed
   \<and> back_WriteLock ndebug (acquire_write_lock this) this \<noteq> Assertion_failed
   \<and> front_WriteLock ndebug (acquire_write_lock this) this \<noteq> Assertion_failed
   \<and> empty_ReadLock ndebug (acquire_read_lock this) this \<noteq> Assertion_failed
   \<and> empty_WriteLock ndebug (acquire_write_lock this) this \<noteq> Assertion_failed
   \<and> size_ReadLock ndebug (acquire_read_lock this) this \<noteq> Assertion_failed
   \<and> size_WriteLock ndebug (acquire_write_lock this) this \<noteq> Assertion_failed
   \<and> push ndebug v (acquire_write_lock this) this \<noteq> Assertion_failed
   \<and> pop ndebug (acquire_write_lock this) this \<noteq> Assertion_failed
   \<and> IterableView ndebug this (acquire_read_lock this) \<noteq> Assertion_failed
   \<and> IterableWriteView ndebug this (acquire_write_lock this) \<noteq> Assertion_failed
   \<and> acquire_iterable_view ndebug (acquire_read_lock this) this \<noteq> Well_formed Assertion_failed
   \<and> acquire_iterable_write_view ndebug (acquire_write_lock this) this \<noteq> Assertion_failed"
  by (cases "SuperQueue this")
     (simp_all add: acquire_read_lock_def acquire_write_lock_def is_valid_lock_ReadLock_def
        is_valid_lock_WriteLock_def read_defs push_def pop_def view_defs deque_defs
        acquire_iterable_view_ill_formed)

subsection \<open>The scenario of the usage example\<close>

text \<open>
  Push 1, 2, 3 in a write-lock scope; in a read-lock scope \<^verbatim>\<open>front\<close> is 1 and \<^verbatim>\<open>size\<close>
  is 3; in a write-lock scope \<^verbatim>\<open>pop\<close> returns 1, after which \<^verbatim>\<open>size\<close> is 2 and \<^verbatim>\<open>front\<close>
  is 2.
\<close>

lemma scenario_push_front_pop:
  "push_each ndebug [(1::nat, acquire_write_lock (ThreadSafeQueue 9 :: nat ThreadSafeQueue)),
        (2, acquire_write_lock (ThreadSafeQueue 9 :: nat ThreadSafeQueue)),
        (3, acquire_write_lock (ThreadSafeQueue 9 :: nat ThreadSafeQueue))] (ThreadSafeQueue 9)
     = Returns \<lparr>SuperQueue = [1, 2, 3], m_mutex = 9\<rparr>"
  "front_ReadLock ndebug (acquire_read_lock \<lparr>SuperQueue = [1, 2, 3 :: nat], m_mutex = 9\<rparr>)
     \<lparr>SuperQueue = [1, 2, 3 :: nat], m_mutex = 9\<rparr>
     = Returns (1, \<lparr>SuperQueue = [1, 2, 3], m_mutex = 9\<rparr>)"
  "size_ReadLock ndebug (acquire_read_lock \<lparr>SuperQueue = [1, 2, 3 :: nat], m_mutex = 9\<rparr>)
     \<lparr>SuperQueue = [1, 2, 3 :: nat], m_mutex = 9\<rparr>
     = Returns (3, \<lparr>SuperQueue = [1, 2, 3], m_mutex = 9\<rparr>)"
  "pop ndebug (acquire_write_lock \<lparr>SuperQueue = [1, 2, 3 :: nat], m_mutex = 9\<rparr>)
     \<lparr>SuperQueue = [1, 2, 3 :: nat], m_mutex = 9\<rparr>
     = Returns (1, \<lparr>SuperQueue = [2, 3], m_mutex = 9\<rparr>)"
  "size_WriteLock ndebug (acquire_write_lock \<lparr>SuperQueue = [2, 3 :: nat], m_mutex = 9\<rparr>)
     \<lparr>SuperQueue = [2, 3 :: nat], m_mutex = 9\<rparr>
     = Returns (2, \<lparr>SuperQueue = [2, 3], m_mutex = 9\<rparr>)"
  "front_WriteLock ndebug (acquire_write_lock \<lparr>SuperQueue = [2, 3 :: nat], m_mutex = 9\<rparr>)
     \<lparr>SuperQueue = [2, 3 :: nat], m_mutex = 9\<rparr>
     = Returns (2, \<lparr>SuperQueue = [2, 3], m_mutex = 9\<rparr>)"
  by (simp_all add: ThreadSafeQueue_def acquire_write_lock_def acquire_read_lock_def
      is_valid_lock_ReadLock_def is_valid_lock_WriteLock_def push_def pop_def read_defs deque_defs)

end
